theory Spec2Isabelle
  imports Main
begin

section \<open>Data model of \<^verbatim>\<open>main.py\<close>\<close>

text \<open>
  \<^verbatim>\<open>SettingsManager.settings\<close> is a dictionary with eight fixed keys; it is modelled as a
  record with one field per key.
\<close>

record settings =
  xqemu_path :: string
  mcpx_path :: string
  flash_path :: string
  hdd_path :: string
  hdd_locked :: bool
  dvd_present :: bool
  dvd_path :: string
  short_anim :: bool

text \<open>
  Python exceptions are values.  \<^verbatim>\<open>Exception\<close> carries its message; the other constructors
  stand for the exceptions raised by the interpreter and by the libraries the program calls.
\<close>

datatype exn =
  Exception string
  | OSError string
  | QMPError string
  | KeyError string
  | TypeError
  | AttributeError

text \<open>
  The values exchanged with \<^verbatim>\<open>QEMUMonitorProtocol.cmd_obj\<close>: Python dictionaries (with
  distinct string keys, kept in insertion order), lists, strings, integers, booleans and
  \<^verbatim>\<open>None\<close>.
\<close>

datatype json =
  JNull
  | JBool bool
  | JNum int
  | JStr string
  | JArr "json list"
  | JObj "(string \<times> json) list"

text \<open>
  A process handle is the identity of a spawned child.  A \<^verbatim>\<open>QEMUMonitorProtocol\<close> object
  is either only constructed or also connected.
\<close>

type_synonym pid = nat

datatype qmp = Unconnected | Connected

text \<open>The two attributes of an \<^verbatim>\<open>Xqemu\<close> object, \<^verbatim>\<open>_p\<close> and \<^verbatim>\<open>_qmp\<close>.\<close>

record xqemu =
  self_p :: "pid option"
  self_qmp :: "qmp option"

text \<open>
  The effects of the program on the outside world, as a trace: the children spawned and not
  yet asked to terminate, the children asked to terminate, the next unused process
  identity, the number of \<^verbatim>\<open>time.sleep(1)\<close> calls, the number of connection attempts, and
  the requests handed to \<^verbatim>\<open>cmd_obj\<close>, oldest first.
\<close>

record world =
  alive :: "pid list"
  terminated :: "pid list"
  fresh :: pid
  sleeps :: nat
  attempts :: nat
  sent :: "json list"

text \<open>
  What the program reads from the outside world.  \<^verbatim>\<open>os.path.exists\<close> and
  \<^verbatim>\<open>os.path.isdir\<close> are two predicates on paths; \<^verbatim>\<open>subprocess.Popen\<close> either raises or
  spawns, depending on the argument vector; the \<open>i\<close>-th pass through the body of the
  connection loop either raises in the constructor, raises in \<^verbatim>\<open>connect\<close>, or connects;
  \<^verbatim>\<open>cmd_obj\<close>, called on a protocol object, answers a request, given the requests sent
  before it, with an exception, with \<^verbatim>\<open>None\<close> or with a response.
\<close>

datatype outcome = CtorRaises exn | ConnectRaises exn | ConnectOk

record env =
  path_exists :: "string \<Rightarrow> bool"
  path_isdir :: "string \<Rightarrow> bool"
  popen :: "string list \<Rightarrow> exn option"
  qmp_connect :: "nat \<Rightarrow> outcome"
  cmd_obj :: "qmp \<Rightarrow> json list \<Rightarrow> json \<Rightarrow> exn + json option"

section \<open>\<^verbatim>\<open>Xqemu.__init__\<close>\<close>

definition xqemu_init :: xqemu where
  "xqemu_init = \<lparr>self_p = None, self_qmp = None\<rparr>"

definition world_init :: world where
  "world_init = \<lparr>alive = [], terminated = [], fresh = 0, sleeps = 0, attempts = 0, sent = []\<rparr>"

section \<open>\<^verbatim>\<open>Xqemu.start\<close>\<close>

text \<open>The local function \<^verbatim>\<open>check_path\<close>.\<close>

definition check_path :: "env \<Rightarrow> string \<Rightarrow> exn + unit" where
  "check_path e path =
     (if \<not> path_exists e path \<or> path_isdir e path
      then Inl (Exception (''File '' @ path @ '' could not be found!''))
      else Inr ())"

text \<open>
  The checks of \<^verbatim>\<open>start\<close>, in the order in which the body performs them (lines 105 to
  118): the four unconditional paths, then the disc path when \<^verbatim>\<open>dvd_present\<close> is set.
\<close>

definition check_paths :: "env \<Rightarrow> settings \<Rightarrow> exn + unit" where
  "check_paths e s =
     (case check_path e (xqemu_path s) of Inl x \<Rightarrow> Inl x | Inr _ \<Rightarrow>
     (case check_path e (mcpx_path s) of Inl x \<Rightarrow> Inl x | Inr _ \<Rightarrow>
     (case check_path e (flash_path s) of Inl x \<Rightarrow> Inl x | Inr _ \<Rightarrow>
     (case check_path e (hdd_path s) of Inl x \<Rightarrow> Inl x | Inr _ \<Rightarrow>
     (if dvd_present s then check_path e (dvd_path s) else Inr ())))))"

text \<open>The argument vector \<^verbatim>\<open>cmd\<close> (lines 113 to 131).\<close>

definition short_anim_arg :: "settings \<Rightarrow> string" where
  "short_anim_arg s = (if short_anim s then '',short_animation'' else '''')"

definition hdd_lock_arg :: "settings \<Rightarrow> string" where
  "hdd_lock_arg s = (if hdd_locked s then '',locked'' else '''')"

definition dvd_path_arg :: "settings \<Rightarrow> string" where
  "dvd_path_arg s = (if dvd_present s then '',file='' @ dvd_path s else '''')"

definition build_cmd :: "settings \<Rightarrow> string list" where
  "build_cmd s =
     [xqemu_path s,
      ''-cpu'', ''pentium3'',
      ''-machine'', ''xbox,bootrom='' @ mcpx_path s @ short_anim_arg s,
      ''-m'', ''64'',
      ''-bios'', flash_path s,
      ''-net'', ''nic,model=nvnet'',
      ''-net'', ''user'',
      ''-drive'', ''file='' @ hdd_path s @ '',index=0,media=disk'' @ hdd_lock_arg s,
      ''-drive'', ''index=1,media=cdrom'' @ dvd_path_arg s,
      ''-qmp'', ''tcp:localhost:4444,server,nowait'']"

text \<open>
  The connection loop (lines 143 to 156), from the value \<open>i\<close> of the counter.  A pass
  sleeps when \<open>i > 0\<close>, then constructs and connects; \<open>pass_effects\<close> records the sleep
  and the attempt.  The assignment to \<^verbatim>\<open>self._qmp\<close>
  happens before \<^verbatim>\<open>connect\<close> is called, so a pass whose \<^verbatim>\<open>connect\<close> raises leaves the
  unconnected object in \<^verbatim>\<open>self._qmp\<close>.  An exception is re-raised when \<open>i > 4\<close> and
  otherwise starts the next pass with \<open>i + 1\<close>.
\<close>

definition pass_effects :: "nat \<Rightarrow> world \<Rightarrow> world" where
  "pass_effects i w =
     (let w1 = (if i > 0 then w\<lparr>sleeps := sleeps w + 1\<rparr> else w)
      in w1\<lparr>attempts := attempts w1 + 1\<rparr>)"

function connect_loop :: "env \<Rightarrow> nat \<Rightarrow> xqemu \<times> world \<Rightarrow> (exn + unit) \<times> xqemu \<times> world" where
  "connect_loop e i (x, w) =
     (case qmp_connect e i of
        ConnectOk \<Rightarrow> (Inr (), x\<lparr>self_qmp := Some Connected\<rparr>, pass_effects i w)
      | ConnectRaises err \<Rightarrow>
          if i > 4 then (Inl err, x\<lparr>self_qmp := Some Unconnected\<rparr>, pass_effects i w)
          else connect_loop e (i + 1) (x\<lparr>self_qmp := Some Unconnected\<rparr>, pass_effects i w)
      | CtorRaises err \<Rightarrow>
          if i > 4 then (Inl err, x, pass_effects i w)
          else connect_loop e (i + 1) (x, pass_effects i w))"
  by pat_completeness auto
termination
  by (relation "measure (\<lambda>(e, i, s). 5 - i)") auto

declare connect_loop.simps [simp del]

text \<open>The exception a pass raises, if it raises.\<close>

fun raised :: "outcome \<Rightarrow> exn option" where
  "raised (CtorRaises err) = Some err"
| "raised (ConnectRaises err) = Some err"
| "raised ConnectOk = None"

text \<open>
  The whole of \<^verbatim>\<open>start\<close>: the checks, the argument vector, \<^verbatim>\<open>subprocess.Popen\<close> and the
  connection loop.  The \<^verbatim>\<open>print\<close> calls are left out.  \<^verbatim>\<open>self._p\<close> is assigned only when
  \<^verbatim>\<open>Popen\<close> returns.
\<close>

definition start :: "env \<Rightarrow> settings \<Rightarrow> xqemu \<times> world \<Rightarrow> (exn + unit) \<times> xqemu \<times> world" where
  "start e s xw =
     (case check_paths e s of
        Inl err \<Rightarrow> (Inl err, xw)
      | Inr _ \<Rightarrow>
          (case popen e (build_cmd s) of
             Some err \<Rightarrow> (Inl err, xw)
           | None \<Rightarrow>
               (let x = fst xw; w = snd xw; child = fresh w
                in connect_loop e 0
                     (x\<lparr>self_p := Some child\<rparr>,
                      w\<lparr>alive := alive w @ [child], fresh := child + 1\<rparr>))))"

section \<open>\<^verbatim>\<open>Xqemu.stop\<close> and \<^verbatim>\<open>Xqemu.isRunning\<close>\<close>

definition stop :: "xqemu \<times> world \<Rightarrow> xqemu \<times> world" where
  "stop xw =
     (case self_p (fst xw) of
        None \<Rightarrow> xw
      | Some child \<Rightarrow>
          ((fst xw)\<lparr>self_p := None\<rparr>,
           (snd xw)\<lparr>alive := removeAll child (alive (snd xw)),
                     terminated := terminated (snd xw) @ [child]\<rparr>))"

definition isRunning :: "xqemu \<Rightarrow> bool" where
  "isRunning x = (self_p x \<noteq> None)"

section \<open>\<^verbatim>\<open>Xqemu.run_cmd\<close> and the commands built on it\<close>

text \<open>
  \<^verbatim>\<open>run_cmd\<close> wraps a command given as a string into a request object, hands the request
  to \<^verbatim>\<open>cmd_obj\<close> and raises \<^verbatim>\<open>Exception('Disconnected!')\<close> when the answer is \<^verbatim>\<open>None\<close>.
  With \<^verbatim>\<open>self._qmp\<close> still \<^verbatim>\<open>None\<close> the attribute access raises.
\<close>

definition wrap_cmd :: "json \<Rightarrow> json" where
  "wrap_cmd cmd =
     (case cmd of
        JStr name \<Rightarrow> JObj [(''execute'', JStr name), (''arguments'', JObj [])]
      | _ \<Rightarrow> cmd)"

definition run_cmd :: "env \<Rightarrow> json \<Rightarrow> xqemu \<times> world \<Rightarrow> (exn + json) \<times> xqemu \<times> world" where
  "run_cmd e cmd xw =
     (case self_qmp (fst xw) of
        None \<Rightarrow> (Inl AttributeError, xw)
      | Some q \<Rightarrow>
          (let w' = (snd xw)\<lparr>sent := sent (snd xw) @ [wrap_cmd cmd]\<rparr>
           in case cmd_obj e q (sent (snd xw)) (wrap_cmd cmd) of
                Inl err \<Rightarrow> (Inl err, fst xw, w')
              | Inr None \<Rightarrow> (Inl (Exception ''Disconnected!''), fst xw, w')
              | Inr (Some resp) \<Rightarrow> (Inr resp, fst xw, w')))"

definition pause :: "env \<Rightarrow> xqemu \<times> world \<Rightarrow> (exn + json) \<times> xqemu \<times> world" where
  "pause e xw = run_cmd e (JStr ''stop'') xw"

definition cont :: "env \<Rightarrow> xqemu \<times> world \<Rightarrow> (exn + json) \<times> xqemu \<times> world" where
  "cont e xw = run_cmd e (JStr ''cont'') xw"

definition restart :: "env \<Rightarrow> xqemu \<times> world \<Rightarrow> (exn + json) \<times> xqemu \<times> world" where
  "restart e xw = run_cmd e (JStr ''system_reset'') xw"

definition screenshot_cmd :: json where
  "screenshot_cmd =
     JObj [(''execute'', JStr ''screendump''),
           (''arguments'', JObj [(''filename'', JStr ''screenshot.ppm'')])]"

definition screenshot :: "env \<Rightarrow> xqemu \<times> world \<Rightarrow> (exn + json) \<times> xqemu \<times> world" where
  "screenshot e xw = run_cmd e screenshot_cmd xw"

text \<open>
  Subscription \<^verbatim>\<open>v[k]\<close> with a string key: a dictionary without the key raises
  \<^verbatim>\<open>KeyError\<close>, and every other value raises \<^verbatim>\<open>TypeError\<close>.
\<close>

fun getitem :: "json \<Rightarrow> string \<Rightarrow> exn + json" where
  "getitem (JObj kvs) k = (case map_of kvs k of None \<Rightarrow> Inl (KeyError k) | Some v \<Rightarrow> Inr v)"
| "getitem JNull k = Inl TypeError"
| "getitem (JBool b) k = Inl TypeError"
| "getitem (JNum n) k = Inl TypeError"
| "getitem (JStr s) k = Inl TypeError"
| "getitem (JArr vs) k = Inl TypeError"

definition status_of :: "json \<Rightarrow> exn + bool" where
  "status_of resp =
     (case getitem resp ''return'' of
        Inl err \<Rightarrow> Inl err
      | Inr r \<Rightarrow>
          (case getitem r ''status'' of
             Inl err \<Rightarrow> Inl err
           | Inr st \<Rightarrow> Inr (st = JStr ''paused'')))"

definition isPaused :: "env \<Rightarrow> xqemu \<times> world \<Rightarrow> (exn + bool) \<times> xqemu \<times> world" where
  "isPaused e xw =
     (case run_cmd e (JStr ''query-status'') xw of
        (Inl err, xw') \<Rightarrow> (Inl err, xw')
      | (Inr resp, xw') \<Rightarrow> (status_of resp, xw'))"

section \<open>\<^verbatim>\<open>SettingsManager.reset\<close>\<close>

definition settings_reset :: settings where
  "settings_reset =
     \<lparr>xqemu_path = ''/path/to/xqemu'',
      mcpx_path = ''/path/to/mcpx.bin'',
      flash_path = ''/path/to/flash.bin'',
      hdd_path = ''/path/to/hdd.img'',
      hdd_locked = True,
      dvd_present = True,
      dvd_path = ''/path/to/disc.iso'',
      short_anim = False\<rparr>"

section \<open>\<^verbatim>\<open>MainWindow\<close> and its handlers\<close>

text \<open>
  The window owns the \<^verbatim>\<open>Xqemu\<close> instance and the settings, and shows its state in the
  texts of the run and pause buttons.  The exceptions shown in a message box are logged in
  \<open>shown\<close>.  A handler returns the exception it lets escape, if any.
\<close>

record mainwindow =
  inst :: xqemu
  win_settings :: settings
  runButton :: string
  pauseButton :: string
  shown :: "exn list"

definition mainwindow_init :: "settings \<Rightarrow> mainwindow" where
  "mainwindow_init s =
     \<lparr>inst = xqemu_init, win_settings = s, runButton = ''Start'', pauseButton = ''Pause'',
      shown = []\<rparr>"

definition onRunButtonClicked :: "env \<Rightarrow> mainwindow \<times> world \<Rightarrow> (exn + unit) \<times> mainwindow \<times> world" where
  "onRunButtonClicked e mw =
     (let m = fst mw; w = snd mw in
      if \<not> isRunning (inst m) then
        (case start e (win_settings m) (inst m, w) of
           (Inr _, x', w') \<Rightarrow> (Inr (), m\<lparr>inst := x', runButton := ''Stop''\<rparr>, w')
         | (Inl err, x', w') \<Rightarrow> (Inr (), m\<lparr>inst := x', shown := shown m @ [err]\<rparr>, w'))
      else
        (case stop (inst m, w) of
           (x', w') \<Rightarrow> (Inr (), m\<lparr>inst := x', runButton := ''Start''\<rparr>, w')))"

definition onPauseButtonClicked :: "env \<Rightarrow> mainwindow \<times> world \<Rightarrow> (exn + unit) \<times> mainwindow \<times> world" where
  "onPauseButtonClicked e mw =
     (let m = fst mw; w = snd mw in
      if \<not> isRunning (inst m) then (Inr (), m, w)
      else
        (case isPaused e (inst m, w) of
           (Inl err, x', w') \<Rightarrow> (Inl err, m\<lparr>inst := x'\<rparr>, w')
         | (Inr True, x', w') \<Rightarrow>
             (case cont e (x', w') of
                (Inl err, x'', w'') \<Rightarrow> (Inl err, m\<lparr>inst := x''\<rparr>, w'')
              | (Inr _, x'', w'') \<Rightarrow> (Inr (), m\<lparr>inst := x'', pauseButton := ''Pause''\<rparr>, w''))
         | (Inr False, x', w') \<Rightarrow>
             (case pause e (x', w') of
                (Inl err, x'', w'') \<Rightarrow> (Inl err, m\<lparr>inst := x''\<rparr>, w'')
              | (Inr _, x'', w'') \<Rightarrow> (Inr (), m\<lparr>inst := x'', pauseButton := ''Continue''\<rparr>, w''))))"

definition onScreenshotButtonClicked :: "env \<Rightarrow> mainwindow \<times> world \<Rightarrow> (exn + unit) \<times> mainwindow \<times> world" where
  "onScreenshotButtonClicked e mw =
     (let m = fst mw; w = snd mw in
      if \<not> isRunning (inst m) then (Inr (), m, w)
      else
        (case screenshot e (inst m, w) of
           (Inl err, x', w') \<Rightarrow> (Inl err, m\<lparr>inst := x'\<rparr>, w')
         | (Inr _, x', w') \<Rightarrow> (Inr (), m\<lparr>inst := x'\<rparr>, w')))"

definition onRestartButtonClicked :: "env \<Rightarrow> mainwindow \<times> world \<Rightarrow> (exn + unit) \<times> mainwindow \<times> world" where
  "onRestartButtonClicked e mw =
     (let m = fst mw; w = snd mw in
      if \<not> isRunning (inst m) then (Inr (), m, w)
      else
        (case restart e (inst m, w) of
           (Inl err, x', w') \<Rightarrow> (Inl err, m\<lparr>inst := x'\<rparr>, w')
         | (Inr _, x', w') \<Rightarrow> (Inr (), m\<lparr>inst := x'\<rparr>, w')))"

text \<open>
  \<^verbatim>\<open>onSettingsClicked\<close> lets the user replace the settings; \<^verbatim>\<open>onExitClicked\<close> stops the
  instance before the interpreter exits.
\<close>

definition onSettingsClicked :: "settings \<Rightarrow> mainwindow \<times> world \<Rightarrow> (exn + unit) \<times> mainwindow \<times> world" where
  "onSettingsClicked s mw = (Inr (), (fst mw)\<lparr>win_settings := s\<rparr>, snd mw)"

definition onExitClicked :: "mainwindow \<times> world \<Rightarrow> (exn + unit) \<times> mainwindow \<times> world" where
  "onExitClicked mw =
     (case stop (inst (fst mw), snd mw) of (x', w') \<Rightarrow> (Inr (), (fst mw)\<lparr>inst := x'\<rparr>, w'))"

text \<open>
  The user actions, each with what the outside world does during it, and the state after a
  sequence of them.
\<close>

datatype event =
  RunClicked env
  | PauseClicked env
  | ScreenshotClicked env
  | RestartClicked env
  | SettingsClicked settings
  | ExitClicked

fun fire :: "event \<Rightarrow> mainwindow \<times> world \<Rightarrow> mainwindow \<times> world" where
  "fire (RunClicked e) mw = snd (onRunButtonClicked e mw)"
| "fire (PauseClicked e) mw = snd (onPauseButtonClicked e mw)"
| "fire (ScreenshotClicked e) mw = snd (onScreenshotButtonClicked e mw)"
| "fire (RestartClicked e) mw = snd (onRestartButtonClicked e mw)"
| "fire (SettingsClicked s) mw = snd (onSettingsClicked s mw)"
| "fire ExitClicked mw = snd (onExitClicked mw)"

fun run_events :: "event list \<Rightarrow> mainwindow \<times> world \<Rightarrow> mainwindow \<times> world" where
  "run_events [] mw = mw"
| "run_events (ev # evs) mw = run_events evs (fire ev mw)"

text \<open>
  The processes spawned and not yet asked to terminate are exactly the one the instance
  owns, if it owns one.
\<close>

definition owns_all_alive :: "mainwindow \<times> world \<Rightarrow> bool" where
  "owns_all_alive mw =
     (alive (snd mw) = (case self_p (inst (fst mw)) of None \<Rightarrow> [] | Some child \<Rightarrow> [child]))"

section \<open>The specification's reading, for comparison with the code\<close>

text \<open>
  A path passes the check of \<^verbatim>\<open>check_path\<close> when it exists and is not a directory.
\<close>

definition valid_path :: "env \<Rightarrow> string \<Rightarrow> bool" where
  "valid_path e path = (path_exists e path \<and> \<not> path_isdir e path)"

text \<open>
  The active path fields of the specification, each with its name, in the order of the
  checks: the emulator, boot-ROM, flash and hard-disk paths always, the disc path when the
  disc-presence flag is set.  \<open>spec_first_invalid\<close> is the first of them that is invalid.
\<close>

definition spec_active_fields :: "settings \<Rightarrow> (string \<times> string) list" where
  "spec_active_fields s =
     [(''xqemu_path'', xqemu_path s),
      (''mcpx_path'', mcpx_path s),
      (''flash_path'', flash_path s),
      (''hdd_path'', hdd_path s)]
     @ (if dvd_present s then [(''dvd_path'', dvd_path s)] else [])"

definition spec_first_invalid :: "env \<Rightarrow> settings \<Rightarrow> (string \<times> string) option" where
  "spec_first_invalid e s = find (\<lambda>fp. \<not> valid_path e (snd fp)) (spec_active_fields s)"

text \<open>
  The request of the specification's \<^verbatim>\<open>screenshot(outputPath)\<close>: command
  \<^verbatim>\<open>screendump\<close> with the argument mapping \<^verbatim>\<open>{filename: outputPath}\<close>.
\<close>

definition spec_screenshot_request :: "string \<Rightarrow> json" where
  "spec_screenshot_request outputPath =
     JObj [(''execute'', JStr ''screendump''),
           (''arguments'', JObj [(''filename'', JStr outputPath)])]"

section \<open>Concrete surroundings for the examples\<close>

text \<open>
  An emulator that pauses on \<^verbatim>\<open>stop\<close>, resumes on \<^verbatim>\<open>cont\<close> and reports its status on
  \<^verbatim>\<open>query-status\<close> with the three fields of the emulator's reply; \<open>qemu_paused\<close> is its
  state after the requests received so far.
\<close>

definition qemu_paused :: "json list \<Rightarrow> bool" where
  "qemu_paused hist =
     foldl (\<lambda>b r. if r = wrap_cmd (JStr ''stop'') then True
                   else if r = wrap_cmd (JStr ''cont'') then False else b) False hist"

definition qemu_status_reply :: "bool \<Rightarrow> json" where
  "qemu_status_reply paused =
     JObj [(''return'',
       JObj [(''status'', JStr (if paused then ''paused'' else ''running'')),
             (''singlestep'', JBool False),
             (''running'', JBool (\<not> paused))])]"

definition qemu_cmd_obj :: "qmp \<Rightarrow> json list \<Rightarrow> json \<Rightarrow> exn + json option" where
  "qemu_cmd_obj q hist req =
     (case q of
        Unconnected \<Rightarrow> Inl (OSError ''not connected'')
      | Connected \<Rightarrow>
          Inr (Some
            (if req = wrap_cmd (JStr ''query-status'')
             then qemu_status_reply (qemu_paused hist)
             else JObj [(''return'', JObj [])])))"

text \<open>
  Surroundings in which every path but \<^verbatim>\<open>/missing\<close> is a file, the emulator can be spawned,
  and its listener refuses the first \<open>n\<close> connections.
\<close>

definition demo_env :: "nat \<Rightarrow> env" where
  "demo_env n =
     \<lparr>path_exists = (\<lambda>path. path \<noteq> ''/missing''),
      path_isdir = (\<lambda>path. False),
      popen = (\<lambda>cmd. None),
      qmp_connect = (\<lambda>i. if i < n then ConnectRaises (QMPError ''refused'') else ConnectOk),
      cmd_obj = qemu_cmd_obj\<rparr>"

text \<open>The same surroundings with a listener that refuses every connection.\<close>

definition demo_env_unreachable :: env where
  "demo_env_unreachable =
     (demo_env 0)\<lparr>qmp_connect := (\<lambda>i. ConnectRaises (QMPError ''refused''))\<rparr>"

text \<open>
  The same surroundings with a peer that resets the connection, so that \<^verbatim>\<open>cmd_obj\<close> raises;
  with a \<^verbatim>\<open>QEMUMonitorProtocol\<close> constructor that raises on every pass; and with an
  emulator that keeps running and answers every command but \<^verbatim>\<open>query-status\<close> with an
  error object.
\<close>

definition demo_env_reset :: env where
  "demo_env_reset =
     (demo_env 0)\<lparr>cmd_obj := (\<lambda>q hist req. Inl (OSError ''connection reset''))\<rparr>"

definition demo_env_no_socket :: env where
  "demo_env_no_socket =
     (demo_env 0)\<lparr>qmp_connect := (\<lambda>i. CtorRaises (OSError ''no socket''))\<rparr>"


text \<open>An instance that owns child \<open>0\<close> and a connection to it, and the matching world.\<close>

definition xqemu_running :: xqemu where
  "xqemu_running = \<lparr>self_p = Some 0, self_qmp = Some Connected\<rparr>"

definition world_running :: world where
  "world_running =
     \<lparr>alive = [0], terminated = [], fresh = 1, sleeps = 0, attempts = 1, sent = []\<rparr>"

section \<open>Frame lemmas\<close>

lemma pass_effects_frame:
  "alive (pass_effects i w) = alive w"
  "terminated (pass_effects i w) = terminated w"
  "sent (pass_effects i w) = sent w"
  "fresh (pass_effects i w) = fresh w"
  by (simp_all add: pass_effects_def Let_def)

lemma connect_loop_frame:
  "self_p (fst (snd (connect_loop e i xw))) = self_p (fst xw) \<and>
   alive (snd (snd (connect_loop e i xw))) = alive (snd xw) \<and>
   terminated (snd (snd (connect_loop e i xw))) = terminated (snd xw) \<and>
   sent (snd (snd (connect_loop e i xw))) = sent (snd xw)"
proof (induction e i xw rule: connect_loop.induct)
  case (1 e i x w)
  show ?case
  proof (cases "qmp_connect e i")
    case (CtorRaises err)
    show ?thesis
    proof (cases "i > 4")
      case True
      with CtorRaises show ?thesis
        by (simp add: connect_loop.simps [of e i] pass_effects_frame)
    next
      case False
      with CtorRaises "1.IH"(1) [OF CtorRaises False] show ?thesis
        by (simp add: connect_loop.simps [of e i] pass_effects_frame)
    qed
  next
    case (ConnectRaises err)
    show ?thesis
    proof (cases "i > 4")
      case True
      with ConnectRaises show ?thesis
        by (simp add: connect_loop.simps [of e i] pass_effects_frame)
    next
      case False
      with ConnectRaises "1.IH"(2) [OF ConnectRaises False] show ?thesis
        by (simp add: connect_loop.simps [of e i] pass_effects_frame)
    qed
  next
    case ConnectOk
    then show ?thesis
      by (simp add: connect_loop.simps [of e i] pass_effects_frame)
  qed
qed

lemma run_cmd_frame:
  "fst (snd (run_cmd e c xw)) = fst xw \<and>
   alive (snd (snd (run_cmd e c xw))) = alive (snd xw) \<and>
   terminated (snd (snd (run_cmd e c xw))) = terminated (snd xw)"
  by (simp add: run_cmd_def Let_def split: option.split sum.split)

lemma isPaused_frame:
  "fst (snd (isPaused e xw)) = fst xw \<and>
   alive (snd (snd (isPaused e xw))) = alive (snd xw)"
proof -
  obtain r x' w' where r: "run_cmd e (JStr ''query-status'') xw = (r, x', w')"
    by (cases "run_cmd e (JStr ''query-status'') xw") auto
  with run_cmd_frame [of e "JStr ''query-status''" xw]
  show ?thesis by (cases r) (simp_all add: isPaused_def)
qed

section \<open>The connection loop of \<^verbatim>\<open>start\<close>\<close>

lemma connect_loop_ok:
  "qmp_connect e i = ConnectOk \<Longrightarrow>
   connect_loop e i (x, w) =
     (Inr (), x\<lparr>self_qmp := Some Connected\<rparr>,
      w\<lparr>sleeps := sleeps w + (if i > 0 then 1 else 0), attempts := attempts w + 1\<rparr>)"
  by (simp add: connect_loop.simps [of e i] pass_effects_def Let_def)


lemma pass_effects_count:
  "sleeps (pass_effects i w) = sleeps w + (if i > 0 then 1 else 0)"
  "attempts (pass_effects i w) = attempts w + 1"
  by (simp_all add: pass_effects_def Let_def)

lemma connect_loop_next:
  "qmp_connect e i \<noteq> ConnectOk \<Longrightarrow> \<not> i > 4 \<Longrightarrow>
   \<exists>x'. connect_loop e i (x, w) = connect_loop e (Suc i) (x', pass_effects i w)"
  by (cases "qmp_connect e i") (auto simp add: connect_loop.simps [of e i])

lemma connect_loop_give_up:
  "qmp_connect e i \<noteq> ConnectOk \<Longrightarrow> i > 4 \<Longrightarrow>
   raised (qmp_connect e i) = Some err \<Longrightarrow>
   fst (connect_loop e i (x, w)) = Inl err \<and> snd (snd (connect_loop e i (x, w))) = pass_effects i w"
  by (cases "qmp_connect e i") (auto simp add: connect_loop.simps [of e i])

lemma connect_loop_reaches:
  "n - i = d \<Longrightarrow> i \<le> n \<Longrightarrow> n \<le> 5 \<Longrightarrow>
   (\<forall>j. i \<le> j \<and> j < n \<longrightarrow> qmp_connect e j \<noteq> ConnectOk) \<Longrightarrow>
   qmp_connect e n = ConnectOk \<Longrightarrow>
   fst (connect_loop e i (x, w)) = Inr () \<and>
   sleeps (snd (snd (connect_loop e i (x, w)))) = sleeps w + (n + 1 - i) - (if i = 0 then 1 else 0) \<and>
   attempts (snd (snd (connect_loop e i (x, w)))) = attempts w + (n + 1 - i)"
proof (induction d arbitrary: i x w)
  case 0
  then have "i = n" by simp
  with "0.prems" show ?case
    by (simp add: connect_loop.simps [of e n] pass_effects_count)
next
  case (Suc d)
  from Suc.prems have lt: "i < n" and fail: "qmp_connect e i \<noteq> ConnectOk" and small: "\<not> i > 4"
    by auto
  from connect_loop_next [OF fail small]
  obtain x' where step: "connect_loop e i (x, w) = connect_loop e (Suc i) (x', pass_effects i w)"
    by blast
  have "fst (connect_loop e (Suc i) (x', pass_effects i w)) = Inr () \<and>
        sleeps (snd (snd (connect_loop e (Suc i) (x', pass_effects i w)))) =
          sleeps (pass_effects i w) + (n + 1 - Suc i) - (if Suc i = 0 then 1 else 0) \<and>
        attempts (snd (snd (connect_loop e (Suc i) (x', pass_effects i w)))) =
          attempts (pass_effects i w) + (n + 1 - Suc i)"
    using Suc.prems lt by (intro Suc.IH) auto
  with step lt show ?case
    by (auto simp add: pass_effects_count)
qed

lemma connect_loop_exhausts:
  "5 - i = d \<Longrightarrow> i \<le> 5 \<Longrightarrow>
   (\<forall>j. i \<le> j \<and> j \<le> 5 \<longrightarrow> qmp_connect e j \<noteq> ConnectOk) \<Longrightarrow>
   raised (qmp_connect e 5) = Some err \<Longrightarrow>
   fst (connect_loop e i (x, w)) = Inl err \<and>
   sleeps (snd (snd (connect_loop e i (x, w)))) = sleeps w + (6 - i) - (if i = 0 then 1 else 0) \<and>
   attempts (snd (snd (connect_loop e i (x, w)))) = attempts w + (6 - i)"
proof (induction d arbitrary: i x w)
  case 0
  then have "i = 5" by simp
  with "0.prems" connect_loop_give_up [of e 5 err x w] show ?case
    by (simp add: pass_effects_count)
next
  case (Suc d)
  from Suc.prems have lt: "i < 5" and fail: "qmp_connect e i \<noteq> ConnectOk" and small: "\<not> i > 4"
    by auto
  from connect_loop_next [OF fail small]
  obtain x' where step: "connect_loop e i (x, w) = connect_loop e (Suc i) (x', pass_effects i w)"
    by blast
  have "fst (connect_loop e (Suc i) (x', pass_effects i w)) = Inl err \<and>
        sleeps (snd (snd (connect_loop e (Suc i) (x', pass_effects i w)))) =
          sleeps (pass_effects i w) + (6 - Suc i) - (if Suc i = 0 then 1 else 0) \<and>
        attempts (snd (snd (connect_loop e (Suc i) (x', pass_effects i w)))) =
          attempts (pass_effects i w) + (6 - Suc i)"
    using Suc.prems lt by (intro Suc.IH) auto
  with step lt show ?case
    by (auto simp add: pass_effects_count)
qed

text \<open>
  Claim C2, as the code has it.  The loop sleeps before every attempt but the first.  When
  the listener refuses the first \<open>N - 1\<close> attempts and accepts the \<open>N\<close>-th, with \<open>N\<close> at
  most six, the loop returns normally after exactly \<open>N\<close> attempts and \<open>N - 1\<close> sleeps.
  When the listener refuses six attempts, the loop raises the exception of the sixth
  attempt, after exactly six attempts and five sleeps.
\<close>

theorem connect_loop_retry_budget:
  "(1 \<le> N \<and> N \<le> 6 \<and> (\<forall>j<N - 1. qmp_connect e j \<noteq> ConnectOk) \<and>
      qmp_connect e (N - 1) = ConnectOk \<longrightarrow>
      fst (connect_loop e 0 (x, w)) = Inr () \<and>
      sleeps (snd (snd (connect_loop e 0 (x, w)))) = sleeps w + (N - 1) \<and>
      attempts (snd (snd (connect_loop e 0 (x, w)))) = attempts w + N) \<and>
   ((\<forall>j<6. qmp_connect e j \<noteq> ConnectOk) \<longrightarrow>
      (case fst (connect_loop e 0 (x, w)) of
         Inl err \<Rightarrow> raised (qmp_connect e 5) = Some err
       | Inr u \<Rightarrow> False) \<and>
      sleeps (snd (snd (connect_loop e 0 (x, w)))) = sleeps w + 5 \<and>
      attempts (snd (snd (connect_loop e 0 (x, w)))) = attempts w + 6)"
proof (intro conjI impI)
  assume h: "1 \<le> N \<and> N \<le> 6 \<and> (\<forall>j<N - 1. qmp_connect e j \<noteq> ConnectOk) \<and>
      qmp_connect e (N - 1) = ConnectOk"
  then have r: "fst (connect_loop e 0 (x, w)) = Inr () \<and>
      sleeps (snd (snd (connect_loop e 0 (x, w)))) = sleeps w + (N - 1 + 1 - 0) - (if (0::nat) = 0 then 1 else 0) \<and>
      attempts (snd (snd (connect_loop e 0 (x, w)))) = attempts w + (N - 1 + 1 - 0)"
    by (intro connect_loop_reaches [of "N - 1" 0 "N - 1"]) auto
  from r show "fst (connect_loop e 0 (x, w)) = Inr ()" by simp
  from r show "sleeps (snd (snd (connect_loop e 0 (x, w)))) = sleeps w + (N - 1)" by simp
  from r h show "attempts (snd (snd (connect_loop e 0 (x, w)))) = attempts w + N" by simp
next
  assume h: "\<forall>j<6. qmp_connect e j \<noteq> ConnectOk"
  then have "qmp_connect e 5 \<noteq> ConnectOk" by simp
  then obtain err where err: "raised (qmp_connect e 5) = Some err"
    by (cases "qmp_connect e 5") auto
  from h have r: "fst (connect_loop e 0 (x, w)) = Inl err \<and>
      sleeps (snd (snd (connect_loop e 0 (x, w)))) = sleeps w + (6 - 0) - (if (0::nat) = 0 then 1 else 0) \<and>
      attempts (snd (snd (connect_loop e 0 (x, w)))) = attempts w + (6 - 0)"
    by (intro connect_loop_exhausts [of 0 5 e err] err) auto
  from r err show "case fst (connect_loop e 0 (x, w)) of
         Inl err \<Rightarrow> raised (qmp_connect e 5) = Some err
       | Inr u \<Rightarrow> False" by simp
  from r show "sleeps (snd (snd (connect_loop e 0 (x, w)))) = sleeps w + 5" by simp
  from r show "attempts (snd (snd (connect_loop e 0 (x, w)))) = attempts w + 6" by simp
qed

text \<open>
  Claim C2, witness: a listener that accepts the third connection is reached after three
  attempts and two sleeps, and one that refuses every connection is given up after six
  attempts and five sleeps, with the exception of the last attempt.
\<close>

theorem connect_loop_retry_budget_witness:
  "fst (connect_loop (demo_env 2) 0 (xqemu_init, world_init)) = Inr () \<and>
   sleeps (snd (snd (connect_loop (demo_env 2) 0 (xqemu_init, world_init)))) = 2 \<and>
   attempts (snd (snd (connect_loop (demo_env 2) 0 (xqemu_init, world_init)))) = 3 \<and>
   fst (connect_loop demo_env_unreachable 0 (xqemu_init, world_init)) = Inl (QMPError ''refused'') \<and>
   sleeps (snd (snd (connect_loop demo_env_unreachable 0 (xqemu_init, world_init)))) = 5 \<and>
   attempts (snd (snd (connect_loop demo_env_unreachable 0 (xqemu_init, world_init)))) = 6"
  using connect_loop_retry_budget [of 3 "demo_env 2" xqemu_init world_init]
    connect_loop_retry_budget [of 3 demo_env_unreachable xqemu_init world_init]
  by (simp add: demo_env_def demo_env_unreachable_def world_init_def split: sum.splits)

text \<open>
  Claim C2, counterexample: with a listener that is never reachable the loop makes six
  connection attempts, not five, before it gives up.
\<close>

theorem connect_loop_sixth_attempt:
  "(\<forall>j. qmp_connect demo_env_unreachable j \<noteq> ConnectOk) \<and>
   attempts (snd (snd (connect_loop demo_env_unreachable 0 (xqemu_init, world_init)))) = 6 \<and>
   attempts (snd (snd (connect_loop demo_env_unreachable 0 (xqemu_init, world_init)))) \<noteq> 5"
  by (simp add: demo_env_def demo_env_unreachable_def world_init_def xqemu_init_def
      connect_loop.simps pass_effects_def)

section \<open>Validation\<close>

lemma check_path_valid:
  "check_path e path =
     (if valid_path e path then Inr ()
      else Inl (Exception (''File '' @ path @ '' could not be found!'')))"
  by (simp add: check_path_def valid_path_def)

text \<open>
  Claim C4, as the code has it.  The checks of \<^verbatim>\<open>start\<close> go through the active path fields
  in order (emulator, boot-ROM, flash and hard-disk paths always, the disc path only when
  the disc-presence flag is set) and stop at the first path that does not exist or is a
  directory, with the exception \<^verbatim>\<open>File <path> could not be found!\<close>, which carries the
  path and no field name.  They succeed exactly when every active path exists and is not
  a directory.  They only read the surroundings, and a failed check leaves the instance
  and the world as they were.
\<close>

theorem check_paths_first_invalid:
  "check_paths e s =
     (case spec_first_invalid e s of
        None \<Rightarrow> Inr ()
      | Some fp \<Rightarrow> Inl (Exception (''File '' @ snd fp @ '' could not be found!''))) \<and>
   (spec_first_invalid e s = None \<longleftrightarrow> (\<forall>fp \<in> set (spec_active_fields s). valid_path e (snd fp))) \<and>
   (\<forall>err. check_paths e s = Inl err \<longrightarrow> start e s xw = (Inl err, xw))"
proof (intro conjI)
  show "check_paths e s =
     (case spec_first_invalid e s of
        None \<Rightarrow> Inr ()
      | Some fp \<Rightarrow> Inl (Exception (''File '' @ snd fp @ '' could not be found!'')))"
    by (simp add: check_paths_def check_path_valid spec_first_invalid_def spec_active_fields_def)
  show "spec_first_invalid e s = None \<longleftrightarrow> (\<forall>fp \<in> set (spec_active_fields s). valid_path e (snd fp))"
    by (auto simp add: spec_first_invalid_def find_None_iff)
  show "\<forall>err. check_paths e s = Inl err \<longrightarrow> start e s xw = (Inl err, xw)"
    by (simp add: start_def)
qed

text \<open>
  Claim C4, witness: with a missing hard-disk image the checks fail with the message naming
  that path and \<^verbatim>\<open>start\<close> changes nothing; with the default settings, all of whose paths are
  files, the checks succeed.
\<close>

theorem check_paths_first_invalid_witness:
  "check_paths (demo_env 0) (settings_reset\<lparr>hdd_path := ''/missing''\<rparr>) =
     Inl (Exception ''File /missing could not be found!'') \<and>
   start (demo_env 0) (settings_reset\<lparr>hdd_path := ''/missing''\<rparr>) (xqemu_init, world_init) =
     (Inl (Exception ''File /missing could not be found!''), xqemu_init, world_init) \<and>
   check_paths (demo_env 0) settings_reset = Inr ()"
  using check_paths_first_invalid [of "demo_env 0" "settings_reset\<lparr>hdd_path := ''/missing''\<rparr>"
      "(xqemu_init, world_init)"]
    check_paths_first_invalid [of "demo_env 0" settings_reset "(xqemu_init, world_init)"]
  by (simp add: spec_first_invalid_def spec_active_fields_def valid_path_def demo_env_def
      settings_reset_def)

text \<open>
  Claim C4, counterexample: two configurations whose first invalid fields differ (the
  emulator path in one, the boot-ROM path in the other) fail with the same exception, so
  the exception does not identify the field.
\<close>

theorem check_paths_error_hides_field:
  "check_paths (demo_env 0) (settings_reset\<lparr>xqemu_path := ''/missing''\<rparr>) =
     check_paths (demo_env 0) (settings_reset\<lparr>mcpx_path := ''/missing''\<rparr>) \<and>
   check_paths (demo_env 0) (settings_reset\<lparr>xqemu_path := ''/missing''\<rparr>) =
     Inl (Exception ''File /missing could not be found!'') \<and>
   map_option fst (spec_first_invalid (demo_env 0) (settings_reset\<lparr>xqemu_path := ''/missing''\<rparr>)) =
     Some ''xqemu_path'' \<and>
   map_option fst (spec_first_invalid (demo_env 0) (settings_reset\<lparr>mcpx_path := ''/missing''\<rparr>)) =
     Some ''mcpx_path''"
  by (simp add: check_paths_def check_path_def spec_first_invalid_def spec_active_fields_def
      valid_path_def demo_env_def settings_reset_def)

section \<open>The argument vector\<close>

text \<open>
  Claim C7.  The argument vector has nineteen elements, and the sixteenth and seventeenth
  are the optical drive at index 1.  When the disc-presence flag is false the drive has no
  \<^verbatim>\<open>file=\<close> sub-flag and the vector does not depend on the disc path.  When the flag is
  true the drive's \<^verbatim>\<open>file=\<close> sub-flag is exactly the configured disc path, and the disc
  path occurs in no other element.
\<close>

theorem build_cmd_disc_fragment:
  "length (build_cmd s) = 19 \<and>
   build_cmd s ! 15 = ''-drive'' \<and>
   (\<not> dvd_present s \<longrightarrow>
      build_cmd s ! 16 = ''index=1,media=cdrom'' \<and>
      build_cmd (s\<lparr>dvd_path := d\<rparr>) = build_cmd s) \<and>
   (dvd_present s \<longrightarrow>
      build_cmd s ! 16 = ''index=1,media=cdrom,file='' @ dvd_path s \<and>
      build_cmd (s\<lparr>dvd_path := d\<rparr>) =
        (build_cmd s)[16 := ''index=1,media=cdrom,file='' @ d])"
proof (intro conjI impI)
  show "length (build_cmd s) = 19" by (simp add: build_cmd_def)
  show "build_cmd s ! 15 = ''-drive''" by (simp add: build_cmd_def)
next
  assume "\<not> dvd_present s"
  then show "build_cmd s ! 16 = ''index=1,media=cdrom''"
    by (simp add: build_cmd_def dvd_path_arg_def)
next
  assume "\<not> dvd_present s"
  then show "build_cmd (s\<lparr>dvd_path := d\<rparr>) = build_cmd s"
    by (simp add: build_cmd_def dvd_path_arg_def short_anim_arg_def hdd_lock_arg_def)
next
  assume "dvd_present s"
  then show "build_cmd s ! 16 = ''index=1,media=cdrom,file='' @ dvd_path s"
    by (simp add: build_cmd_def dvd_path_arg_def)
next
  assume "dvd_present s"
  then show "build_cmd (s\<lparr>dvd_path := d\<rparr>) =
      (build_cmd s)[16 := ''index=1,media=cdrom,file='' @ d]"
  proof -
    have n: "(16::nat) = Suc (Suc (Suc (Suc (Suc (Suc (Suc (Suc (Suc (Suc (Suc (Suc (Suc (Suc (Suc (Suc 0)))))))))))))))"
      by simp
    from \<open>dvd_present s\<close> show ?thesis
      unfolding build_cmd_def n
      by (simp add: dvd_path_arg_def short_anim_arg_def hdd_lock_arg_def)
  qed
qed

text \<open>
  Claim C7, witness: the default settings, with the disc present and then absent.
\<close>

theorem build_cmd_disc_fragment_witness:
  "build_cmd settings_reset ! 16 = ''index=1,media=cdrom,file=/path/to/disc.iso'' \<and>
   build_cmd (settings_reset\<lparr>dvd_present := False\<rparr>) ! 16 = ''index=1,media=cdrom'' \<and>
   build_cmd (settings_reset\<lparr>dvd_present := False, dvd_path := ''/other.iso''\<rparr>) =
     build_cmd (settings_reset\<lparr>dvd_present := False\<rparr>)"
  using build_cmd_disc_fragment [of settings_reset "''/other.iso''"]
    build_cmd_disc_fragment [of "settings_reset\<lparr>dvd_present := False\<rparr>" "''/other.iso''"]
  by (simp add: settings_reset_def)

section \<open>Stopping\<close>

text \<open>
  Claim C3, as the code has it.  \<^verbatim>\<open>stop\<close> with a process owned asks that process to
  terminate and clears \<^verbatim>\<open>self._p\<close>; it sends nothing to the control connection and leaves
  \<^verbatim>\<open>self._qmp\<close> as it was.  \<^verbatim>\<open>stop\<close> with no process owned changes nothing, so a second
  \<^verbatim>\<open>stop\<close> is a no-op, and after any \<^verbatim>\<open>stop\<close> no process handle is owned.
\<close>

theorem stop_clears_process_only:
  "(self_p x = Some child \<longrightarrow>
      stop (x, w) =
        (x\<lparr>self_p := None\<rparr>,
         w\<lparr>alive := removeAll child (alive w), terminated := terminated w @ [child]\<rparr>)) \<and>
   (self_p x = None \<longrightarrow> stop (x, w) = (x, w)) \<and>
   stop (stop (x, w)) = stop (x, w) \<and>
   \<not> isRunning (fst (stop (x, w))) \<and>
   self_qmp (fst (stop (x, w))) = self_qmp x \<and>
   sent (snd (stop (x, w))) = sent w"
  by (cases "self_p x") (simp_all add: stop_def isRunning_def)

text \<open>
  Claim C3, witness: stopping the running instance terminates child \<open>0\<close> and clears the
  handle; stopping again changes nothing.
\<close>

theorem stop_clears_process_only_witness:
  "stop (xqemu_running, world_running) =
     (\<lparr>self_p = None, self_qmp = Some Connected\<rparr>,
      \<lparr>alive = [], terminated = [0], fresh = 1, sleeps = 0, attempts = 1, sent = []\<rparr>) \<and>
   stop (stop (xqemu_running, world_running)) = stop (xqemu_running, world_running)"
  using stop_clears_process_only [of xqemu_running 0 world_running]
  by (simp add: stop_def xqemu_running_def world_running_def)

text \<open>
  Claim C3, counterexample: after \<^verbatim>\<open>stop\<close> on a running, connected instance the control
  connection is still owned and still connected, and nothing was sent to it.
\<close>

theorem stop_keeps_connection:
  "self_qmp (fst (stop (xqemu_running, world_running))) = Some Connected \<and>
   self_qmp (fst (stop (xqemu_running, world_running))) \<noteq> None \<and>
   sent (snd (stop (xqemu_running, world_running))) = []"
  by (simp add: stop_def xqemu_running_def world_running_def)

section \<open>Commands\<close>

lemma run_cmd_sent:
  "self_qmp (fst xw) = Some q \<Longrightarrow>
   sent (snd (snd (run_cmd e cmd xw))) = sent (snd xw) @ [wrap_cmd cmd]"
  by (simp add: run_cmd_def Let_def split: sum.splits option.splits)

text \<open>
  Claim C6, as the code has it.  \<^verbatim>\<open>run_cmd\<close> turns a command name into the request object
  with the name under \<^verbatim>\<open>execute\<close> and an empty mapping under \<^verbatim>\<open>arguments\<close>, and hands over
  a request given as an object as it is.  With no protocol object it raises
  \<^verbatim>\<open>AttributeError\<close> and sends nothing.  With a protocol object it hands \<^verbatim>\<open>cmd_obj\<close> exactly
  one request and leaves the instance as it was; it raises \<^verbatim>\<open>Exception('Disconnected!')\<close>
  when \<^verbatim>\<open>cmd_obj\<close> returns \<^verbatim>\<open>None\<close>, lets an exception raised by \<^verbatim>\<open>cmd_obj\<close> escape
  unchanged, and returns normally exactly when \<^verbatim>\<open>cmd_obj\<close> returned a response, which it
  returns whole.
\<close>

theorem run_cmd_outcomes:
  "wrap_cmd (JStr name) = JObj [(''execute'', JStr name), (''arguments'', JObj [])] \<and>
   wrap_cmd (JObj kvs) = JObj kvs \<and>
   (self_qmp x = None \<longrightarrow> run_cmd e cmd (x, w) = (Inl AttributeError, x, w)) \<and>
   (self_qmp x = Some q \<longrightarrow>
      snd (run_cmd e cmd (x, w)) = (x, w\<lparr>sent := sent w @ [wrap_cmd cmd]\<rparr>) \<and>
      (cmd_obj e q (sent w) (wrap_cmd cmd) = Inr None \<longrightarrow>
         fst (run_cmd e cmd (x, w)) = Inl (Exception ''Disconnected!'')) \<and>
      (\<forall>err. cmd_obj e q (sent w) (wrap_cmd cmd) = Inl err \<longrightarrow>
         fst (run_cmd e cmd (x, w)) = Inl err) \<and>
      (\<forall>resp. fst (run_cmd e cmd (x, w)) = Inr resp \<longleftrightarrow>
         cmd_obj e q (sent w) (wrap_cmd cmd) = Inr (Some resp)))"
proof (intro conjI impI)
  show "wrap_cmd (JStr name) = JObj [(''execute'', JStr name), (''arguments'', JObj [])]"
    by (simp add: wrap_cmd_def)
  show "wrap_cmd (JObj kvs) = JObj kvs"
    by (simp add: wrap_cmd_def)
next
  assume "self_qmp x = None"
  then show "run_cmd e cmd (x, w) = (Inl AttributeError, x, w)"
    by (simp add: run_cmd_def)
next
  assume q: "self_qmp x = Some q"
  then show "snd (run_cmd e cmd (x, w)) = (x, w\<lparr>sent := sent w @ [wrap_cmd cmd]\<rparr>)"
    by (simp add: run_cmd_def Let_def split: sum.splits option.splits)
  from q show "\<forall>err. cmd_obj e q (sent w) (wrap_cmd cmd) = Inl err \<longrightarrow>
      fst (run_cmd e cmd (x, w)) = Inl err"
    by (simp add: run_cmd_def Let_def)
  from q show "\<forall>resp. fst (run_cmd e cmd (x, w)) = Inr resp \<longleftrightarrow>
      cmd_obj e q (sent w) (wrap_cmd cmd) = Inr (Some resp)"
    by (auto simp add: run_cmd_def Let_def split: sum.splits option.splits)
next
  assume "self_qmp x = Some q" and "cmd_obj e q (sent w) (wrap_cmd cmd) = Inr None"
  then show "fst (run_cmd e cmd (x, w)) = Inl (Exception ''Disconnected!'')"
    by (simp add: run_cmd_def Let_def)
qed

text \<open>
  Claim C6, witness: a peer that closes before it responds, a peer that resets the
  connection, the emulator that responds, and an instance without a protocol object.
\<close>

theorem run_cmd_outcomes_witness:
  "run_cmd ((demo_env 0)\<lparr>cmd_obj := (\<lambda>q hist req. Inr None)\<rparr>) (JStr ''cont'')
     (xqemu_running, world_running) =
     (Inl (Exception ''Disconnected!''), xqemu_running,
      world_running\<lparr>sent := [JObj [(''execute'', JStr ''cont''), (''arguments'', JObj [])]]\<rparr>) \<and>
   fst (run_cmd demo_env_reset (JStr ''cont'') (xqemu_running, world_running)) =
     Inl (OSError ''connection reset'') \<and>
   fst (run_cmd (demo_env 0) (JStr ''cont'') (xqemu_running, world_running)) =
     Inr (JObj [(''return'', JObj [])]) \<and>
   run_cmd (demo_env 0) (JStr ''cont'') (xqemu_init, world_init) =
     (Inl AttributeError, xqemu_init, world_init)"
  using run_cmd_outcomes [of "''cont''" "[]" xqemu_running
      "(demo_env 0)\<lparr>cmd_obj := (\<lambda>q hist req. Inr None)\<rparr>" "JStr ''cont''" world_running Connected]
    run_cmd_outcomes [of "''cont''" "[]" xqemu_running demo_env_reset "JStr ''cont''"
      world_running Connected]
    run_cmd_outcomes [of "''cont''" "[]" xqemu_running "demo_env 0" "JStr ''cont''"
      world_running Connected]
    run_cmd_outcomes [of "''cont''" "[]" xqemu_init "demo_env 0" "JStr ''cont''"
      world_init Connected]
  by (simp add: run_cmd_def wrap_cmd_def demo_env_def demo_env_reset_def qemu_cmd_obj_def
      xqemu_running_def world_running_def xqemu_init_def)

text \<open>
  Claim C6, counterexample: when the peer resets the connection and \<^verbatim>\<open>cmd_obj\<close> raises, no
  response is received and yet \<^verbatim>\<open>run_cmd\<close> raises the library's exception, not
  \<^verbatim>\<open>Exception('Disconnected!')\<close>.  When the constructor of the protocol object raised on
  every pass of \<^verbatim>\<open>start\<close>, the window owns a process and no protocol object, and a click
  on the pause button ends in \<^verbatim>\<open>AttributeError\<close>.
\<close>

theorem run_cmd_error_not_disconnected:
  "fst (run_cmd demo_env_reset (JStr ''cont'') (xqemu_running, world_running)) =
     Inl (OSError ''connection reset'') \<and>
   fst (run_cmd demo_env_reset (JStr ''cont'') (xqemu_running, world_running)) \<noteq>
     Inl (Exception ''Disconnected!'') \<and>
   inst (fst (run_events [RunClicked demo_env_no_socket]
     (mainwindow_init settings_reset, world_init))) = \<lparr>self_p = Some 0, self_qmp = None\<rparr> \<and>
   fst (onPauseButtonClicked (demo_env 0) (run_events [RunClicked demo_env_no_socket]
     (mainwindow_init settings_reset, world_init))) = Inl AttributeError"
proof -
  have a: "fst (run_cmd demo_env_reset (JStr ''cont'') (xqemu_running, world_running)) =
     Inl (OSError ''connection reset'')"
    by (simp add: run_cmd_def demo_env_reset_def xqemu_running_def Let_def)
  have b: "run_events [RunClicked demo_env_no_socket]
     (mainwindow_init settings_reset, world_init) =
     (\<lparr>inst = \<lparr>self_p = Some 0, self_qmp = None\<rparr>, win_settings = settings_reset,
        runButton = ''Start'', pauseButton = ''Pause'', shown = [OSError ''no socket'']\<rparr>,
      \<lparr>alive = [0], terminated = [], fresh = 1, sleeps = 5, attempts = 6, sent = []\<rparr>)"
    by (simp add: onRunButtonClicked_def start_def isRunning_def check_paths_def
        check_path_def demo_env_def demo_env_no_socket_def settings_reset_def
        mainwindow_init_def xqemu_init_def world_init_def connect_loop.simps pass_effects_def)
  have c: "fst (onPauseButtonClicked (demo_env 0) (run_events [RunClicked demo_env_no_socket]
     (mainwindow_init settings_reset, world_init))) = Inl AttributeError"
    unfolding b by (simp add: onPauseButtonClicked_def isPaused_def run_cmd_def isRunning_def)
  from a b c show ?thesis by simp
qed

text \<open>
  Claim C8, as the code has it.  \<^verbatim>\<open>screenshot\<close> takes no path: it issues \<^verbatim>\<open>screendump\<close> with
  the argument mapping \<^verbatim>\<open>{filename: "screenshot.ppm"}\<close>, whatever the caller wants, and
  with a protocol object in place that request is the one request handed to \<^verbatim>\<open>cmd_obj\<close>.
\<close>

theorem screenshot_fixed_filename:
  "screenshot e xw = run_cmd e (spec_screenshot_request ''screenshot.ppm'') xw \<and>
   (self_qmp (fst xw) \<noteq> None \<longrightarrow>
      sent (snd (snd (screenshot e xw))) =
        sent (snd xw) @ [spec_screenshot_request ''screenshot.ppm''])"
  by (cases "self_qmp (fst xw)")
    (simp_all add: screenshot_def screenshot_cmd_def spec_screenshot_request_def run_cmd_sent
      wrap_cmd_def)

text \<open>
  Claim C8, witness: the request sent by a screenshot of the running instance.
\<close>

theorem screenshot_fixed_filename_witness:
  "sent (snd (snd (screenshot (demo_env 0) (xqemu_running, world_running)))) =
     [JObj [(''execute'', JStr ''screendump''),
            (''arguments'', JObj [(''filename'', JStr ''screenshot.ppm'')])]]"
  using screenshot_fixed_filename [of "demo_env 0" "(xqemu_running, world_running)"]
  by (simp add: spec_screenshot_request_def xqemu_running_def world_running_def
      screenshot_def screenshot_cmd_def run_cmd_def wrap_cmd_def Let_def demo_env_def
      qemu_cmd_obj_def)

text \<open>
  Claim C8, counterexample: a caller that wants the image at \<^verbatim>\<open>/tmp/shot.ppm\<close> cannot say
  so; the request sent is not the one the specification describes for that path.
\<close>

theorem screenshot_ignores_caller_path:
  "sent (snd (snd (screenshot (demo_env 0) (xqemu_running, world_running)))) \<noteq>
     [spec_screenshot_request ''/tmp/shot.ppm'']"
  by (simp add: screenshot_def screenshot_cmd_def spec_screenshot_request_def run_cmd_def
      wrap_cmd_def Let_def xqemu_running_def world_running_def demo_env_def qemu_cmd_obj_def)

section \<open>The handlers\<close>

text \<open>
  Claim C10.  The screenshot handler returns at once when no process is owned: the window
  and the world, and with it the requests sent, stay as they were.
\<close>

theorem onScreenshotButtonClicked_stopped:
  "\<not> isRunning (inst m) \<Longrightarrow> onScreenshotButtonClicked e (m, w) = (Inr (), m, w)"
  by (simp add: onScreenshotButtonClicked_def)

text \<open>
  Claim C10, witness: a screenshot click on the freshly created window.
\<close>

theorem onScreenshotButtonClicked_stopped_witness:
  "\<not> isRunning (inst (mainwindow_init settings_reset)) \<and>
   onScreenshotButtonClicked (demo_env 0) (mainwindow_init settings_reset, world_init) =
     (Inr (), mainwindow_init settings_reset, world_init) \<and>
   sent (snd (snd (onScreenshotButtonClicked (demo_env 0)
     (mainwindow_init settings_reset, world_init)))) = []"
proof -
  have h: "\<not> isRunning (inst (mainwindow_init settings_reset))"
    by (simp add: isRunning_def mainwindow_init_def xqemu_init_def)
  from h onScreenshotButtonClicked_stopped [OF h, of "demo_env 0" world_init]
  show ?thesis by (simp add: world_init_def)
qed







section \<open>Starting\<close>

lemma start_early_failure:
  "check_paths e s \<noteq> Inr () \<or> popen e (build_cmd s) \<noteq> None \<Longrightarrow> snd (start e s xw) = xw"
  by (auto simp add: start_def split: sum.splits option.splits)

lemma start_frame:
  "terminated (snd (snd (start e s xw))) = terminated (snd xw) \<and>
   sent (snd (snd (start e s xw))) = sent (snd xw)"
  by (simp add: start_def connect_loop_frame Let_def split: sum.splits option.splits)

lemma start_spawned:
  "check_paths e s = Inr () \<Longrightarrow> popen e (build_cmd s) = None \<Longrightarrow>
   self_p (fst (snd (start e s (x, w)))) = Some (fresh w) \<and>
   alive (snd (snd (start e s (x, w)))) = alive w @ [fresh w]"
  by (simp add: start_def connect_loop_frame Let_def)

text \<open>
  Claim C1, what the code does.  When the checks pass and the emulator is spawned, but the
  listener refuses all six connection attempts, \<^verbatim>\<open>start\<close> raises the exception of the last
  attempt and still owns the process it spawned: \<^verbatim>\<open>isRunning\<close> is true, and the process
  has not been asked to terminate.
\<close>

theorem start_connect_failure_keeps_process:
  "check_paths e s = Inr () \<Longrightarrow> popen e (build_cmd s) = None \<Longrightarrow>
   \<forall>j<6. qmp_connect e j \<noteq> ConnectOk \<Longrightarrow>
   (case fst (start e s (x, w)) of
      Inl err \<Rightarrow> raised (qmp_connect e 5) = Some err
    | Inr u \<Rightarrow> False) \<and>
   isRunning (fst (snd (start e s (x, w)))) \<and>
   self_p (fst (snd (start e s (x, w)))) = Some (fresh w) \<and>
   alive (snd (snd (start e s (x, w)))) = alive w @ [fresh w] \<and>
   terminated (snd (snd (start e s (x, w)))) = terminated w"
proof -
  assume ok: "check_paths e s = Inr ()" and sp: "popen e (build_cmd s) = None"
    and never: "\<forall>j<6. qmp_connect e j \<noteq> ConnectOk"
  let ?x = "x\<lparr>self_p := Some (fresh w)\<rparr>"
  let ?w = "w\<lparr>alive := alive w @ [fresh w], fresh := fresh w + 1\<rparr>"
  from ok sp have st: "start e s (x, w) = connect_loop e 0 (?x, ?w)"
    by (simp add: start_def Let_def)
  from never have "qmp_connect e 5 \<noteq> ConnectOk" by simp
  then obtain err where err: "raised (qmp_connect e 5) = Some err"
    by (cases "qmp_connect e 5") auto
  from never have "fst (connect_loop e 0 (?x, ?w)) = Inl err \<and>
      sleeps (snd (snd (connect_loop e 0 (?x, ?w)))) =
        sleeps ?w + (6 - 0) - (if (0::nat) = 0 then 1 else 0) \<and>
      attempts (snd (snd (connect_loop e 0 (?x, ?w)))) = attempts ?w + (6 - 0)"
    by (intro connect_loop_exhausts [of 0 5 e err] err) auto
  with st err have res: "case fst (start e s (x, w)) of
      Inl err \<Rightarrow> raised (qmp_connect e 5) = Some err | Inr u \<Rightarrow> False"
    by simp
  from start_spawned [OF ok sp, of x w] start_frame [of e s "(x, w)"] res
  show ?thesis by (simp add: isRunning_def)
qed

text \<open>
  Claim C1, the failing input: the default settings, all paths files, the emulator spawned
  and its listener never reachable.  \<^verbatim>\<open>start\<close> raises and the instance keeps child \<open>0\<close> and
  the unconnected protocol object; the run button handler shows the error and leaves the
  button at \<^verbatim>\<open>Start\<close> although \<^verbatim>\<open>isRunning\<close> is now true.
\<close>

theorem start_connect_failure_keeps_process_witness:
  "start demo_env_unreachable settings_reset (xqemu_init, world_init) =
     (Inl (QMPError ''refused''),
      \<lparr>self_p = Some 0, self_qmp = Some Unconnected\<rparr>,
      \<lparr>alive = [0], terminated = [], fresh = 1, sleeps = 5, attempts = 6, sent = []\<rparr>) \<and>
   isRunning (fst (snd (start demo_env_unreachable settings_reset (xqemu_init, world_init)))) \<and>
   runButton (fst (snd (onRunButtonClicked demo_env_unreachable
     (mainwindow_init settings_reset, world_init)))) = ''Start'' \<and>
   isRunning (inst (fst (snd (onRunButtonClicked demo_env_unreachable
     (mainwindow_init settings_reset, world_init)))))"
proof -
  have ev: "start demo_env_unreachable settings_reset (xqemu_init, world_init) =
     (Inl (QMPError ''refused''),
      \<lparr>self_p = Some 0, self_qmp = Some Unconnected\<rparr>,
      \<lparr>alive = [0], terminated = [], fresh = 1, sleeps = 5, attempts = 6, sent = []\<rparr>)"
    by (simp add: start_def check_paths_def check_path_def demo_env_def
        demo_env_unreachable_def settings_reset_def xqemu_init_def world_init_def
        connect_loop.simps pass_effects_def)
  have ok: "check_paths demo_env_unreachable settings_reset = Inr ()"
    by (simp add: check_paths_def check_path_def demo_env_def demo_env_unreachable_def
        settings_reset_def)
  have sp: "popen demo_env_unreachable (build_cmd settings_reset) = None"
    by (simp add: demo_env_def demo_env_unreachable_def)
  have never: "\<forall>j<6. qmp_connect demo_env_unreachable j \<noteq> ConnectOk"
    by (simp add: demo_env_def demo_env_unreachable_def)
  from start_connect_failure_keeps_process [OF ok sp never, of xqemu_init world_init]
  have run: "isRunning (fst (snd (start demo_env_unreachable settings_reset
      (xqemu_init, world_init))))"
    by simp
  from ev run show ?thesis
    by (simp add: onRunButtonClicked_def mainwindow_init_def isRunning_def xqemu_init_def)
qed


section \<open>One process per instance\<close>

lemma stop_owns:
  "owns_all_alive (m, w) \<Longrightarrow>
   owns_all_alive (m\<lparr>inst := fst (stop (inst m, w)), runButton := t\<rparr>, snd (stop (inst m, w)))"
  by (cases "self_p (inst m)") (simp_all add: owns_all_alive_def stop_def)

lemma start_owns:
  assumes inv: "owns_all_alive (m, w)" and idle: "\<not> isRunning (inst m)"
  shows "alive (snd (snd (start e s (inst m, w)))) =
     (case self_p (fst (snd (start e s (inst m, w)))) of None \<Rightarrow> [] | Some child \<Rightarrow> [child])"
proof (cases "check_paths e s = Inr () \<and> popen e (build_cmd s) = None")
  case True
  with start_spawned [of e s "inst m" w] inv idle show ?thesis
    by (simp add: owns_all_alive_def isRunning_def)
next
  case False
  then have "snd (start e s (inst m, w)) = (inst m, w)"
    by (intro start_early_failure) auto
  with inv show ?thesis by (simp add: owns_all_alive_def)
qed

lemma onRunButtonClicked_owns:
  assumes inv: "owns_all_alive (m, w)"
  shows "owns_all_alive (snd (onRunButtonClicked e (m, w)))"
proof (cases "isRunning (inst m)")
  case True
  with stop_owns [OF inv, of "''Start''"] show ?thesis
    by (simp add: onRunButtonClicked_def case_prod_beta)
next
  case False
  obtain r x' w' where st: "start e (win_settings m) (inst m, w) = (r, x', w')"
    by (cases "start e (win_settings m) (inst m, w)") auto
  with start_owns [OF inv False, of e "win_settings m"]
  have "alive w' = (case self_p x' of None \<Rightarrow> [] | Some child \<Rightarrow> [child])" by simp
  with False st show ?thesis
    by (cases r) (simp_all add: onRunButtonClicked_def owns_all_alive_def)
qed

lemma command_owns:
  assumes inv: "owns_all_alive (m, w)" and res: "run_cmd e cmd (inst m, w) = (r, x', w')"
  shows "owns_all_alive (m\<lparr>inst := x'\<rparr>, w') \<and> owns_all_alive (m\<lparr>inst := x', pauseButton := t\<rparr>, w')"
  using inv run_cmd_frame [of e cmd "(inst m, w)"] res
  by (simp add: owns_all_alive_def)

lemma onScreenshotButtonClicked_owns:
  assumes inv: "owns_all_alive (m, w)"
  shows "owns_all_alive (snd (onScreenshotButtonClicked e (m, w)))"
proof -
  obtain r x' w' where res: "run_cmd e screenshot_cmd (inst m, w) = (r, x', w')"
    by (cases "run_cmd e screenshot_cmd (inst m, w)") auto
  with command_owns [OF inv res] inv show ?thesis
    by (cases r) (simp_all add: onScreenshotButtonClicked_def screenshot_def)
qed

lemma onRestartButtonClicked_owns:
  assumes inv: "owns_all_alive (m, w)"
  shows "owns_all_alive (snd (onRestartButtonClicked e (m, w)))"
proof -
  obtain r x' w' where res: "run_cmd e (JStr ''system_reset'') (inst m, w) = (r, x', w')"
    by (cases "run_cmd e (JStr ''system_reset'') (inst m, w)") auto
  with command_owns [OF inv res] inv show ?thesis
    by (cases r) (simp_all add: onRestartButtonClicked_def restart_def)
qed

lemma onPauseButtonClicked_owns:
  assumes inv: "owns_all_alive (m, w)"
  shows "owns_all_alive (snd (onPauseButtonClicked e (m, w)))"
proof (cases "isRunning (inst m)")
  case False
  with inv show ?thesis by (simp add: onPauseButtonClicked_def)
next
  case True
  obtain r x' w' where q: "isPaused e (inst m, w) = (r, x', w')"
    by (cases "isPaused e (inst m, w)") auto
  with isPaused_frame [of e "(inst m, w)"] have fr: "x' = inst m" "alive w' = alive w"
    by simp_all
  with inv have inv': "owns_all_alive (m, w')" by (simp add: owns_all_alive_def)
  show ?thesis
  proof (cases r)
    case (Inl err)
    with True q fr inv' show ?thesis
      by (simp add: onPauseButtonClicked_def owns_all_alive_def)
  next
    case (Inr paused)
    let ?cmd = "JStr (if paused then ''cont'' else ''stop'')"
    obtain r2 x2 w2 where res: "run_cmd e ?cmd (inst m, w') = (r2, x2, w2)"
      by (cases "run_cmd e ?cmd (inst m, w')") auto
    from command_owns [OF inv' res] True q fr Inr res show ?thesis
      by (cases r2; cases paused) (simp_all add: onPauseButtonClicked_def cont_def pause_def)
  qed
qed

lemma fire_owns:
  "owns_all_alive mw \<Longrightarrow> owns_all_alive (fire ev mw)"
proof (cases mw)
  case (Pair m w)
  assume inv: "owns_all_alive mw"
  show ?thesis
  proof (cases ev)
    case (RunClicked e)
    with inv Pair onRunButtonClicked_owns [of m w e] show ?thesis by simp
  next
    case (PauseClicked e)
    with inv Pair onPauseButtonClicked_owns [of m w e] show ?thesis by simp
  next
    case (ScreenshotClicked e)
    with inv Pair onScreenshotButtonClicked_owns [of m w e] show ?thesis by simp
  next
    case (RestartClicked e)
    with inv Pair onRestartButtonClicked_owns [of m w e] show ?thesis by simp
  next
    case (SettingsClicked s)
    with inv Pair show ?thesis by (simp add: onSettingsClicked_def owns_all_alive_def)
  next
    case ExitClicked
    with inv Pair stop_owns [of m w "runButton m"] show ?thesis
      by (simp add: onExitClicked_def case_prod_beta)
  qed
qed

lemma run_events_owns:
  "owns_all_alive mw \<Longrightarrow> owns_all_alive (run_events evs mw)"
  by (induction evs arbitrary: mw) (simp_all add: fire_owns)

text \<open>
  Claim C5, as the code has it.  \<^verbatim>\<open>Xqemu.start\<close> has no guard of its own; the guard is in
  the run button handler, which calls \<^verbatim>\<open>start\<close> only when no process is owned and otherwise
  stops the instance.  So after any sequence of user actions on a fresh window the
  processes spawned and not yet asked to terminate are exactly the one the instance owns,
  if any: at most one.
\<close>

theorem handlers_own_one_process:
  "owns_all_alive (run_events evs (mainwindow_init s, world_init)) \<and>
   length (alive (snd (run_events evs (mainwindow_init s, world_init)))) \<le> 1 \<and>
   (isRunning (inst m) \<longrightarrow>
      snd (onRunButtonClicked e (m, w)) =
        (m\<lparr>inst := fst (stop (inst m, w)), runButton := ''Start''\<rparr>, snd (stop (inst m, w))))"
proof (intro conjI impI)
  have init: "owns_all_alive (mainwindow_init s, world_init)"
    by (simp add: owns_all_alive_def mainwindow_init_def xqemu_init_def world_init_def)
  from run_events_owns [OF init]
  show inv: "owns_all_alive (run_events evs (mainwindow_init s, world_init))" .
  then show "length (alive (snd (run_events evs (mainwindow_init s, world_init)))) \<le> 1"
    by (simp add: owns_all_alive_def split: option.splits)
next
  assume "isRunning (inst m)"
  then show "snd (onRunButtonClicked e (m, w)) =
        (m\<lparr>inst := fst (stop (inst m, w)), runButton := ''Start''\<rparr>, snd (stop (inst m, w)))"
    by (simp add: onRunButtonClicked_def case_prod_beta)
qed

text \<open>
  Claim C5, witness: three clicks on the run button start the emulator, stop it and start
  it again; child \<open>1\<close> is then the only process.  A click on the running window stops it.
\<close>

theorem handlers_own_one_process_witness:
  "alive (snd (run_events
     [RunClicked (demo_env 0), RunClicked (demo_env 0), RunClicked (demo_env 0)]
     (mainwindow_init settings_reset, world_init))) = [1] \<and>
   terminated (snd (run_events
     [RunClicked (demo_env 0), RunClicked (demo_env 0), RunClicked (demo_env 0)]
     (mainwindow_init settings_reset, world_init))) = [0] \<and>
   length (alive (snd (run_events
     [RunClicked (demo_env 0), RunClicked (demo_env 0), RunClicked (demo_env 0)]
     (mainwindow_init settings_reset, world_init)))) \<le> 1 \<and>
   alive (snd (snd (onRunButtonClicked (demo_env 0)
     (mainwindow_init settings_reset\<lparr>inst := xqemu_running\<rparr>, world_running)))) = []"
proof -
  have ev: "run_events
     [RunClicked (demo_env 0), RunClicked (demo_env 0), RunClicked (demo_env 0)]
     (mainwindow_init settings_reset, world_init) =
     (\<lparr>inst = \<lparr>self_p = Some 1, self_qmp = Some Connected\<rparr>, win_settings = settings_reset,
        runButton = ''Stop'', pauseButton = ''Pause'', shown = []\<rparr>,
      \<lparr>alive = [1], terminated = [0], fresh = 2, sleeps = 0, attempts = 2, sent = []\<rparr>)"
    by (simp add: onRunButtonClicked_def start_def stop_def isRunning_def check_paths_def
        check_path_def demo_env_def settings_reset_def mainwindow_init_def xqemu_init_def
        world_init_def connect_loop.simps pass_effects_def)
  from handlers_own_one_process [of
      "[RunClicked (demo_env 0), RunClicked (demo_env 0), RunClicked (demo_env 0)]"
      settings_reset "mainwindow_init settings_reset\<lparr>inst := xqemu_running\<rparr>" "demo_env 0"
      world_running] ev
  show ?thesis
    by (simp add: isRunning_def stop_def mainwindow_init_def xqemu_running_def world_running_def)
qed

text \<open>
  Claim C5, counterexample: \<^verbatim>\<open>start\<close> called on an instance that already owns child \<open>0\<close>
  is not rejected; it spawns child \<open>1\<close>, and both processes are then alive.
\<close>

theorem start_unguarded_spawns_second:
  "isRunning xqemu_running \<and>
   fst (start (demo_env 0) settings_reset (xqemu_running, world_running)) = Inr () \<and>
   alive (snd (snd (start (demo_env 0) settings_reset (xqemu_running, world_running)))) = [0, 1] \<and>
   self_p (fst (snd (start (demo_env 0) settings_reset (xqemu_running, world_running)))) = Some 1"
  by (simp add: start_def isRunning_def check_paths_def check_path_def demo_env_def
      settings_reset_def xqemu_running_def world_running_def connect_loop.simps
      pass_effects_def)

end
